theory Spec2Isabelle
  imports Complex_Main
begin

section \<open>JavaScript numbers\<close>

text \<open>
  The wrapper computes with JavaScript numbers. A number is NaN, one of the two
  infinities, or a finite value. Finite values are kept as exact rationals: the
  rounding of IEEE doubles and the sign of zero are not part of this model, so every
  statement below about a computed price or size is a statement of exact arithmetic.
  The special values follow the language: NaN absorbs, the difference of two equal
  infinities is NaN, zero times infinity is NaN, a nonzero finite number divided by
  zero is an infinity.
\<close>

datatype jsnum = NaN | PosInfinity | NegInfinity | Finite rat

fun js_neg :: "jsnum \<Rightarrow> jsnum" where
  "js_neg NaN = NaN"
| "js_neg PosInfinity = NegInfinity"
| "js_neg NegInfinity = PosInfinity"
| "js_neg (Finite a) = Finite (- a)"

fun js_add :: "jsnum \<Rightarrow> jsnum \<Rightarrow> jsnum" where
  "js_add (Finite a) (Finite b) = Finite (a + b)"
| "js_add NaN _ = NaN"
| "js_add _ NaN = NaN"
| "js_add PosInfinity NegInfinity = NaN"
| "js_add NegInfinity PosInfinity = NaN"
| "js_add PosInfinity _ = PosInfinity"
| "js_add _ PosInfinity = PosInfinity"
| "js_add NegInfinity _ = NegInfinity"
| "js_add _ NegInfinity = NegInfinity"

definition js_sub :: "jsnum \<Rightarrow> jsnum \<Rightarrow> jsnum" where
  "js_sub x y = js_add x (js_neg y)"

text \<open>The sign of a number that is not NaN: \<open>-1\<close>, \<open>0\<close> or \<open>1\<close>.\<close>

fun js_sign :: "jsnum \<Rightarrow> int" where
  "js_sign NaN = 0"
| "js_sign PosInfinity = 1"
| "js_sign NegInfinity = - 1"
| "js_sign (Finite a) = (if a < 0 then - 1 else if a = 0 then 0 else 1)"

definition signed_infinity :: "int \<Rightarrow> jsnum" where
  "signed_infinity s = (if s = 0 then NaN else if 0 < s then PosInfinity else NegInfinity)"

definition js_mul :: "jsnum \<Rightarrow> jsnum \<Rightarrow> jsnum" where
  "js_mul x y =
     (case (x, y) of
        (Finite a, Finite b) \<Rightarrow> Finite (a * b)
      | _ \<Rightarrow> if x = NaN \<or> y = NaN then NaN else signed_infinity (js_sign x * js_sign y))"

definition js_div :: "jsnum \<Rightarrow> jsnum \<Rightarrow> jsnum" where
  "js_div x y =
     (case (x, y) of
        (Finite a, Finite b) \<Rightarrow> if b = 0 then signed_infinity (js_sign x) else Finite (a / b)
      | (Finite a, _) \<Rightarrow> if y = NaN then NaN else Finite 0
      | (_, Finite b) \<Rightarrow>
          if x = NaN then NaN else signed_infinity (js_sign x * (if b < 0 then - 1 else 1))
      | _ \<Rightarrow> NaN)"

section \<open>Number to text: \<open>toFixed\<close>\<close>

text \<open>
  \<open>x.toFixed(f)\<close> returns a string. For a finite \<open>x\<close> below \<open>10^21\<close> in magnitude the
  language takes the integer \<open>n\<close> for which \<open>n / 10^f\<close> is closest to the magnitude of
  \<open>x\<close> (the larger one of two), and writes its digits with a point before the last
  \<open>f\<close> of them, after a minus sign when \<open>x < 0\<close>. Otherwise the result is the
  text of \<open>ToString(x)\<close>, which is kept symbolic here.
\<close>

datatype number_text = Text string | ToStringOf jsnum

definition digit_char :: "nat \<Rightarrow> char" where
  "digit_char d = ''0123456789'' ! d"

function digits :: "nat \<Rightarrow> string" where
  "digits n = (if n < 10 then [digit_char n] else digits (n div 10) @ [digit_char (n mod 10)])"
  by pat_completeness auto
termination
  by (relation "measure (\<lambda>n. n)") auto

definition nearest_scaled :: "nat \<Rightarrow> rat \<Rightarrow> nat" where
  "nearest_scaled fractionDigits a = nat \<lfloor>\<bar>a\<bar> * 10 ^ fractionDigits + 1 / 2\<rfloor>"

definition toFixed :: "nat \<Rightarrow> jsnum \<Rightarrow> number_text" where
  "toFixed fractionDigits x =
     (case x of
        Finite a \<Rightarrow>
          if 10 ^ 21 \<le> \<bar>a\<bar> then ToStringOf x
          else
            (let s = (if a < 0 then ''-'' else []);
                 n = nearest_scaled fractionDigits a;
                 b = digits (n mod 10 ^ fractionDigits)
             in Text (s @ digits (n div 10 ^ fractionDigits) @
                      (if fractionDigits = 0 then []
                       else ''.'' @ replicate (fractionDigits - length b) (CHR ''0'') @ b)))
      | _ \<Rightarrow> ToStringOf x)"

section \<open>Text to number: \<open>parseFloat\<close>\<close>

text \<open>
  \<open>parseFloat\<close> turns its argument into a string, skips leading white space and reads
  the longest prefix that is a decimal literal: an optional sign, then \<open>Infinity\<close> or
  digits with an optional fraction and an optional exponent. With no such prefix the
  result is NaN. A property that an object does not have reads as \<open>undefined\<close>, whose
  string is \<open>undefined\<close>. Only the ASCII white space characters are modelled.
\<close>

datatype jsval = Undefined | Str string

definition ToString :: "jsval \<Rightarrow> string" where
  "ToString v = (case v of Undefined \<Rightarrow> ''undefined'' | Str s \<Rightarrow> s)"

definition is_whitespace :: "char \<Rightarrow> bool" where
  "is_whitespace c = (c \<in> set [CHR 0x09, CHR 0x0A, CHR 0x0B, CHR 0x0C, CHR 0x0D, CHR '' ''])"

definition is_digit :: "char \<Rightarrow> bool" where
  "is_digit c = (c \<in> set ''0123456789'')"

definition digit_value :: "char \<Rightarrow> nat" where
  "digit_value c = of_char c - 48"

definition digits_value :: "string \<Rightarrow> nat" where
  "digits_value ds = foldl (\<lambda>a c. 10 * a + digit_value c) 0 ds"

definition take_sign :: "string \<Rightarrow> int \<times> string" where
  "take_sign s =
     (case s of
        [] \<Rightarrow> (1, s)
      | c # r \<Rightarrow> if c = CHR ''-'' then (- 1, r) else if c = CHR ''+'' then (1, r) else (1, s))"

definition exponent_part :: "string \<Rightarrow> int" where
  "exponent_part s =
     (case s of
        [] \<Rightarrow> 0
      | c # r \<Rightarrow>
          if c = CHR ''e'' \<or> c = CHR ''E''
          then (case take_sign r of
                  (sg, r') \<Rightarrow>
                    (let ds = takeWhile is_digit r'
                     in if ds = [] then 0 else sg * int (digits_value ds)))
          else 0)"

definition pow10 :: "int \<Rightarrow> rat" where
  "pow10 e = (if 0 \<le> e then 10 ^ nat e else 1 / 10 ^ nat (- e))"

definition parseFloat_string :: "string \<Rightarrow> jsnum" where
  "parseFloat_string inputString =
     (case take_sign (dropWhile is_whitespace inputString) of
        (sg, u) \<Rightarrow>
          if take 8 u = ''Infinity'' then signed_infinity sg
          else
            (let ip = takeWhile is_digit u;
                 r1 = dropWhile is_digit u;
                 hasDot = (case r1 of [] \<Rightarrow> False | c # _ \<Rightarrow> c = CHR ''.'');
                 fp = (if hasDot then takeWhile is_digit (tl r1) else []);
                 r2 = (if hasDot then dropWhile is_digit (tl r1) else r1)
             in if ip = [] \<and> fp = [] then NaN
                else Finite (of_int sg *
                       (of_nat (digits_value ip) + of_nat (digits_value fp) / 10 ^ length fp) *
                       pow10 (exponent_part r2))))"

definition parseFloat :: "jsval \<Rightarrow> jsnum" where
  "parseFloat v = parseFloat_string (ToString v)"

text \<open>\<open>a || b\<close> on numbers: \<open>a\<close> unless it is falsy, that is NaN or zero.\<close>

definition js_or :: "jsnum \<Rightarrow> jsnum \<Rightarrow> jsnum" where
  "js_or a b = (if a = NaN \<or> a = Finite 0 then b else a)"

section \<open>The exchange SDK at its call boundary\<close>

text \<open>
  The SDK is not part of the repository. An instruction is represented by the SDK call
  that builds it, with the arguments in the order of the call; an options object keeps
  each key the caller may leave out as an option. The SDK's unit conversions and its
  default order tag are parameters.
\<close>

type_synonym asset = nat

datatype side = UNINITIALIZED | BID | ASK

datatype order_type = LIMIT | POSTONLY | FILLORKILL | IMMEDIATEORCANCEL | POSTONLYSLIDE

datatype trigger_direction = LESSTHANOREQUAL | GREATERTHANOREQUAL

record order_options =
  orderType :: "order_type option"
  tifOptions :: "(string \<times> jsnum) list option"
  reduceOnly :: "bool option"
  tag :: "string option"

datatype instruction =
    PlacePerpOrder asset jsnum jsnum side order_options
  | PlaceTriggerOrder asset jsnum jsnum side jsnum trigger_direction int order_type nat
      order_options

record sdk =
  convertDecimalToNativeInteger :: "jsnum \<Rightarrow> jsnum"
  convertDecimalToNativeLotSize :: "number_text \<Rightarrow> jsnum"
  DEFAULT_ORDER_TAG :: string

text \<open>The kind of an instruction, its side, and the slot of a trigger instruction.\<close>

fun is_trigger_order :: "instruction \<Rightarrow> bool" where
  "is_trigger_order (PlaceTriggerOrder _ _ _ _ _ _ _ _ _ _) = True"
| "is_trigger_order (PlacePerpOrder _ _ _ _ _) = False"

fun trigger_slot :: "instruction \<Rightarrow> nat option" where
  "trigger_slot (PlaceTriggerOrder _ _ _ _ _ _ _ _ b _) = Some b"
| "trigger_slot (PlacePerpOrder _ _ _ _ _) = None"

fun order_side :: "instruction \<Rightarrow> side" where
  "order_side (PlaceTriggerOrder _ _ _ sd _ _ _ _ _ _) = sd"
| "order_side (PlacePerpOrder _ _ _ sd _) = sd"

section \<open>Instruction builders\<close>

definition createMainOrderInstruction ::
  "sdk \<Rightarrow> asset \<Rightarrow> jsnum \<Rightarrow> jsnum \<Rightarrow> side \<Rightarrow> instruction" where
  "createMainOrderInstruction k marketIndex adjustedPrice nativeLotSize sd =
     PlacePerpOrder marketIndex (convertDecimalToNativeInteger k adjustedPrice) nativeLotSize sd
       \<lparr> orderType = Some LIMIT, tifOptions = Some [], reduceOnly = None, tag = None \<rparr>"

definition createTPLimitOrderInstruction ::
  "sdk \<Rightarrow> string \<Rightarrow> asset \<Rightarrow> jsnum \<Rightarrow> jsnum \<Rightarrow> jsnum \<Rightarrow> instruction" where
  "createTPLimitOrderInstruction k direction marketIndex takeProfitPrice takeProfitTrigger
       nativeLotSize =
     (let tp_side = (if direction = ''long'' then ASK else BID);
          triggerDirection =
            (if direction = ''long'' then GREATERTHANOREQUAL else LESSTHANOREQUAL)
      in PlacePerpOrder marketIndex (convertDecimalToNativeInteger k takeProfitPrice)
           nativeLotSize tp_side
           \<lparr> orderType = Some LIMIT, tifOptions = Some [], reduceOnly = Some True,
             tag = None \<rparr>)"

text \<open>
  The last parameter of the two trigger builders has a default: \<open>None\<close> is a call that
  leaves it out.
\<close>

definition createTPOrderInstruction ::
  "sdk \<Rightarrow> string \<Rightarrow> asset \<Rightarrow> jsnum \<Rightarrow> jsnum \<Rightarrow> jsnum \<Rightarrow> nat option \<Rightarrow> instruction" where
  "createTPOrderInstruction k direction marketIndex takeProfitPrice takeProfitTrigger
       nativeLotSize triggerOrderBit =
     (let tp_side = (if direction = ''long'' then ASK else BID);
          triggerDirection =
            (if direction = ''long'' then GREATERTHANOREQUAL else LESSTHANOREQUAL)
      in PlaceTriggerOrder marketIndex (convertDecimalToNativeInteger k takeProfitPrice)
           nativeLotSize tp_side (convertDecimalToNativeInteger k takeProfitTrigger)
           triggerDirection 0 LIMIT (case triggerOrderBit of None \<Rightarrow> 0 | Some b \<Rightarrow> b)
           \<lparr> orderType = None, tifOptions = None, reduceOnly = Some True,
             tag = Some (DEFAULT_ORDER_TAG k) \<rparr>)"

definition createSLOrderInstruction ::
  "sdk \<Rightarrow> string \<Rightarrow> asset \<Rightarrow> jsnum \<Rightarrow> jsnum \<Rightarrow> jsnum \<Rightarrow> nat option \<Rightarrow> instruction" where
  "createSLOrderInstruction k direction marketIndex stopLossPrice stopLossTrigger
       nativeLotSize triggerOrderBit =
     (let sl_side = (if direction = ''long'' then ASK else BID);
          triggerDirection =
            (if direction = ''long'' then LESSTHANOREQUAL else GREATERTHANOREQUAL)
      in PlaceTriggerOrder marketIndex (convertDecimalToNativeInteger k stopLossPrice)
           nativeLotSize sl_side (convertDecimalToNativeInteger k stopLossTrigger)
           triggerDirection 0 LIMIT (case triggerOrderBit of None \<Rightarrow> 1 | Some b \<Rightarrow> b)
           \<lparr> orderType = None, tifOptions = None, reduceOnly = Some True,
             tag = Some (DEFAULT_ORDER_TAG k) \<rparr>)"

section \<open>Risk settings and the settings store\<close>

text \<open>
  A thrown value. \<open>hgetall\<close> of the store either throws or gives the hash as an object
  whose properties are strings; \<open>fetchSettings\<close> wraps the read and the three parses
  in one \<open>try\<close>, and its \<open>catch\<close> returns the defaults.
\<close>

datatype js_error = Error string | TypeError string

record settings =
  leverageMultiplier :: jsnum
  takeProfitPercentage :: jsnum
  stopLossPercentage :: jsnum

definition get_property :: "(string \<rightharpoonup> string) \<Rightarrow> string \<Rightarrow> jsval" where
  "get_property obj key = (case obj key of None \<Rightarrow> Undefined | Some s \<Rightarrow> Str s)"

definition fetchSettings :: "js_error + (string \<rightharpoonup> string) \<Rightarrow> js_error + settings" where
  "fetchSettings hgetall_trading_settings =
     (case hgetall_trading_settings of
        Inr redisSettings \<Rightarrow>
          Inr \<lparr> leverageMultiplier =
                  js_or (parseFloat (get_property redisSettings ''leverageMultiplier''))
                    (Finite 8),
                takeProfitPercentage =
                  js_or (parseFloat (get_property redisSettings ''takeProfitPercentage''))
                    (Finite 0.0018),
                stopLossPercentage =
                  js_or (parseFloat (get_property redisSettings ''stopLossPercentage''))
                    (Finite 0.022) \<rparr>
      | Inl error \<Rightarrow>
          Inr \<lparr> leverageMultiplier = Finite 8,
                takeProfitPercentage = Finite 0.0018,
                stopLossPercentage = Finite 0.022 \<rparr>)"

section \<open>Take-profit and stop-loss prices\<close>

record tpsl_prices =
  takeProfitPrice :: jsnum
  takeProfitTrigger :: jsnum
  stopLossPrice :: jsnum
  stopLossTrigger :: jsnum

text \<open>
  \<open>calculateTPSLPrices(direction, price, settings)\<close>: the direction is compared with the
  string \<open>long\<close> and with nothing else.
\<close>

definition calculateTPSLPrices :: "string \<Rightarrow> jsnum \<Rightarrow> settings \<Rightarrow> tpsl_prices" where
  "calculateTPSLPrices direction price st =
     (let isLong = (direction = ''long'');
          tpPrice = (if isLong
                     then js_add price (js_mul price (takeProfitPercentage st))
                     else js_sub price (js_mul price (takeProfitPercentage st)));
          tpTrigger = (if isLong
                       then js_add price (js_div (js_sub tpPrice price) (Finite 2))
                       else js_sub price (js_div (js_sub price tpPrice) (Finite 2)));
          slPrice = (if isLong
                     then js_sub price (js_mul price (stopLossPercentage st))
                     else js_add price (js_mul price (stopLossPercentage st)));
          slTrigger = (if isLong
                       then js_sub price (js_mul (js_sub price slPrice) (Finite 0.9))
                       else js_add price (js_mul (js_sub slPrice price) (Finite 0.9)))
      in \<lparr> takeProfitPrice = tpPrice, takeProfitTrigger = tpTrigger,
           stopLossPrice = slPrice, stopLossTrigger = slTrigger \<rparr>)"

section \<open>Entry price and position size\<close>

text \<open>
  The order book of the SDK has its asks and its bids best first; a level has a price
  and a size. The forced refresh of the book is a call into the SDK: the book here is
  the one the wrapper reads after it. Reading the price of the first level of an empty
  side is a read of a property of \<open>undefined\<close>, which throws a TypeError. The size
  text handed to the lot conversion is \<open>toFixed(1)\<close> of the position size.
\<close>

record level =
  price :: jsnum
  level_size :: jsnum

record orderbook =
  asks :: "level list"
  bids :: "level list"

record pricing =
  currentPrice :: jsnum
  adjustedPrice :: jsnum
  positionSize :: jsnum
  nativeLotSize :: jsnum

definition calculatePricesAndSize ::
  "sdk \<Rightarrow> (asset \<Rightarrow> orderbook) \<Rightarrow> side \<Rightarrow> asset \<Rightarrow> jsnum \<Rightarrow> settings \<Rightarrow> js_error + pricing" where
  "calculatePricesAndSize k getOrderbook sd marketIndex balance st =
     (let book = getOrderbook marketIndex
      in case (if sd = BID then asks book else bids book) of
           [] \<Rightarrow> Inl (TypeError ''Cannot read properties of undefined (reading 'price')'')
         | best # _ \<Rightarrow>
             (let cur = price best;
                  slippage = Finite 0.00005;
                  adj = (if sd = BID
                         then js_mul cur (js_add (Finite 1) slippage)
                         else js_mul cur (js_sub (Finite 1) slippage));
                  balanceDecimal = balance;
                  psize = js_div (js_mul balanceDecimal (leverageMultiplier st)) cur;
                  lots = convertDecimalToNativeLotSize k (toFixed 1 psize)
              in Inr \<lparr> currentPrice = cur, adjustedPrice = adj, positionSize = psize,
                       nativeLotSize = lots \<rparr>))"

section \<open>Submission with retry\<close>

text \<open>
  The network is an oracle indexed by the attempt: what \<open>getLatestBlockhash\<close> answers
  in that attempt, and what \<open>utils.processTransaction\<close> answers there for the
  transaction it is given. The run records, in order, each request for a blockhash
  (answered or not), each submission with the transaction as submitted, and each
  sleep. Logging is left out.
\<close>

record transaction =
  instructions :: "instruction list"
  recentBlockhash :: "string option"
  lastValidBlockHeight :: "nat option"

record rpc =
  getLatestBlockhash :: "int \<Rightarrow> js_error + string \<times> nat"
  processTransaction :: "int \<Rightarrow> transaction \<Rightarrow> js_error + string"

datatype event = RequestedBlockhash int | Submitted int transaction | Slept int

datatype outcome = Returned string | ReturnedUndefined | Threw js_error

record submission =
  outcome_of :: outcome
  sent :: transaction
  events :: "event list"

text \<open>The body of the \<open>try\<close>: the answer, the transaction after it, and what was done.\<close>

definition try_attempt ::
  "rpc \<Rightarrow> int \<Rightarrow> transaction \<Rightarrow> (js_error + string) \<times> transaction \<times> event list" where
  "try_attempt conn attempt tx =
     (case getLatestBlockhash conn attempt of
        Inl error \<Rightarrow> (Inl error, tx, [RequestedBlockhash attempt])
      | Inr (blockhash, height) \<Rightarrow>
          (let tx' = tx\<lparr> recentBlockhash := Some blockhash,
                         lastValidBlockHeight := Some height \<rparr>
           in (processTransaction conn attempt tx', tx',
               [RequestedBlockhash attempt, Submitted attempt tx'])))"

function retry_loop :: "rpc \<Rightarrow> int \<Rightarrow> int \<Rightarrow> int \<Rightarrow> transaction \<Rightarrow> submission" where
  "retry_loop conn maxRetries retryDelay attempt tx =
     (if attempt \<le> maxRetries
      then (case try_attempt conn attempt tx of
              (Inr txid, tx', done) \<Rightarrow>
                \<lparr> outcome_of = Returned txid, sent = tx', events = done \<rparr>
            | (Inl error, tx', done) \<Rightarrow>
                if attempt = maxRetries
                then \<lparr> outcome_of = Threw error, sent = tx', events = done \<rparr>
                else (let later = retry_loop conn maxRetries retryDelay (attempt + 1) tx'
                      in later\<lparr> events := done @ Slept retryDelay # events later \<rparr>))
      else \<lparr> outcome_of = ReturnedUndefined, sent = tx, events = [] \<rparr>)"
  by pat_completeness auto
termination
  by (relation "measure (\<lambda>(conn, maxRetries, retryDelay, attempt, tx).
        nat (maxRetries + 1 - attempt))") auto

declare retry_loop.simps [simp del]

text \<open>\<open>None\<close> for a parameter is a call that leaves it out: the defaults are 3 and 100.\<close>

definition processTransactionWithRetry ::
  "rpc \<Rightarrow> transaction \<Rightarrow> int option \<Rightarrow> int option \<Rightarrow> submission" where
  "processTransactionWithRetry conn tx maxRetries retryDelay =
     retry_loop conn (case maxRetries of None \<Rightarrow> 3 | Some m \<Rightarrow> m)
       (case retryDelay of None \<Rightarrow> 100 | Some d \<Rightarrow> d) 1 tx"

text \<open>
  Reading a run: the attempts that requested a blockhash and the sleeps, each in
  order, and whether an event is a sleep.
\<close>

fun is_sleep :: "event \<Rightarrow> bool" where
  "is_sleep (Slept _) = True"
| "is_sleep _ = False"

fun attempts_of :: "event list \<Rightarrow> int list" where
  "attempts_of [] = []"
| "attempts_of (RequestedBlockhash a # es) = a # attempts_of es"
| "attempts_of (_ # es) = attempts_of es"

fun delays_of :: "event list \<Rightarrow> int list" where
  "delays_of [] = []"
| "delays_of (Slept d # es) = d # delays_of es"
| "delays_of (_ # es) = delays_of es"



section \<open>Opening a position\<close>

text \<open>
  What the wrapper reads from outside while it opens a position: the settings hash,
  whether the refresh of the account state throws, the balance, the order books and
  the network. The refresh of the priority fee catches every error and changes only the
  fee, which no instruction reads; it is left out.
\<close>

record world =
  hgetall :: "js_error + (string \<rightharpoonup> string)"
  updateState :: "js_error option"
  account_balance :: jsnum
  exchange_orderbook :: "asset \<Rightarrow> orderbook"
  connection :: rpc
  activeMarket :: asset

record opened =
  result :: outcome
  built :: "transaction option"
  trace :: "event list"

definition openPositionWithTPSLVersioned ::
  "sdk \<Rightarrow> world \<Rightarrow> string \<Rightarrow> asset option \<Rightarrow> opened" where
  "openPositionWithTPSLVersioned k w direction market =
     (let marketIndex = (case market of None \<Rightarrow> activeMarket w | Some m \<Rightarrow> m)
      in case fetchSettings (hgetall w) of
           Inl error \<Rightarrow> \<lparr> result = Threw error, built = None, trace = [] \<rparr>
         | Inr st \<Rightarrow>
             (case updateState w of
                Some error \<Rightarrow> \<lparr> result = Threw error, built = None, trace = [] \<rparr>
              | None \<Rightarrow>
                  (let balance = account_balance w;
                       sd = (if direction = ''long'' then BID else ASK)
                   in case calculatePricesAndSize k (exchange_orderbook w) sd marketIndex
                             balance st of
                        Inl error \<Rightarrow> \<lparr> result = Threw error, built = None, trace = [] \<rparr>
                      | Inr pr \<Rightarrow>
                          (let tpsl = calculateTPSLPrices direction (adjustedPrice pr) st;
                               mainOrderIx = createMainOrderInstruction k marketIndex
                                 (adjustedPrice pr) (nativeLotSize pr) sd;
                               tpOrderIx = createTPLimitOrderInstruction k direction
                                 marketIndex (takeProfitPrice tpsl) (takeProfitTrigger tpsl)
                                 (nativeLotSize pr);
                               slOrderIx = createSLOrderInstruction k direction marketIndex
                                 (stopLossPrice tpsl) (stopLossTrigger tpsl)
                                 (nativeLotSize pr) (Some 0);
                               tx = \<lparr> instructions = [mainOrderIx, tpOrderIx, slOrderIx],
                                      recentBlockhash = None,
                                      lastValidBlockHeight = None \<rparr>;
                               sub = processTransactionWithRetry (connection w) tx None None
                           in \<lparr> result = outcome_of sub, built = Some (sent sub),
                                trace = events sub \<rparr>))))"

section \<open>The specification's wording, and sample inputs\<close>


text \<open>
  Inputs for concrete runs: an SDK whose conversions scale by \<open>10^6\<close> and \<open>10^3\<close>, the
  default settings, an order book of one level a side, a network that answers every
  blockhash request and rejects the submissions of the attempts before a given one, a
  transaction with no instructions, and a world with an empty settings hash.
\<close>

definition sample_sdk :: sdk where
  "sample_sdk =
     \<lparr> convertDecimalToNativeInteger = (\<lambda>x. js_mul x (Finite 1000000)),
       convertDecimalToNativeLotSize =
         (\<lambda>t. case t of Text s \<Rightarrow> js_mul (parseFloat_string s) (Finite 1000)
               | ToStringOf x \<Rightarrow> js_mul x (Finite 1000)),
       DEFAULT_ORDER_TAG = ''SDK'' \<rparr>"

definition sample_settings :: settings where
  "sample_settings =
     \<lparr> leverageMultiplier = Finite 8, takeProfitPercentage = Finite 0.0018,
       stopLossPercentage = Finite 0.022 \<rparr>"

definition sample_book :: "rat \<Rightarrow> rat \<Rightarrow> asset \<Rightarrow> orderbook" where
  "sample_book bestAsk bestBid marketIndex =
     \<lparr> asks = [\<lparr> price = Finite bestAsk, level_size = Finite 1 \<rparr>],
       bids = [\<lparr> price = Finite bestBid, level_size = Finite 1 \<rparr>] \<rparr>"

definition sample_rpc :: "int \<Rightarrow> rpc" where
  "sample_rpc n =
     \<lparr> getLatestBlockhash = (\<lambda>attempt. Inr (''hash'' @ digits (nat attempt), 1000)),
       processTransaction =
         (\<lambda>attempt tx. if attempt < n then Inl (Error (''rejected '' @ digits (nat attempt)))
                       else Inr (''txid'' @ digits (nat attempt))) \<rparr>"

definition empty_transaction :: transaction where
  "empty_transaction =
     \<lparr> instructions = [], recentBlockhash = None, lastValidBlockHeight = None \<rparr>"

definition sample_world :: "rpc \<Rightarrow> world" where
  "sample_world conn =
     \<lparr> hgetall = Inr Map.empty, updateState = None, account_balance = Finite 1000,
       exchange_orderbook = sample_book 101 99, connection = conn, activeMarket = 0 \<rparr>"

section \<open>Arithmetic facts\<close>

lemma js_neg_neg: "js_neg (js_neg x) = x"
  by (cases x) simp_all

lemma js_add_commute: "js_add x y = js_add y x"
  by (cases x; cases y) simp_all

lemma js_neg_add: "js_neg (js_add x y) = js_add (js_neg x) (js_neg y)"
  by (cases x; cases y) simp_all

lemma js_neg_sub: "js_neg (js_sub x y) = js_sub y x"
  by (simp add: js_sub_def js_neg_add js_neg_neg js_add_commute)

lemma js_neg_half: "js_neg (js_div x (Finite 2)) = js_div (js_neg x) (Finite 2)"
  by (cases x) (simp_all add: js_div_def signed_infinity_def)

lemma js_neg_mul_Finite:
  "c \<noteq> 0 \<Longrightarrow> js_neg (js_mul x (Finite c)) = js_mul (js_neg x) (Finite c)"
  by (cases x) (simp_all add: js_mul_def signed_infinity_def)

lemma js_mul_Finite [simp]: "js_mul (Finite a) (Finite b) = Finite (a * b)"
  by (simp add: js_mul_def)

lemma js_div_Finite [simp]: "b \<noteq> 0 \<Longrightarrow> js_div (Finite a) (Finite b) = Finite (a / b)"
  by (simp add: js_div_def)

lemma js_sub_Finite [simp]: "js_sub (Finite a) (Finite b) = Finite (a - b)"
  by (simp add: js_sub_def)

section \<open>The price plan\<close>

lemma calculateTPSLPrices_long:
  "calculateTPSLPrices ''long'' entry st =
     \<lparr> takeProfitPrice = js_add entry (js_mul entry (takeProfitPercentage st)),
       takeProfitTrigger = js_add entry (js_div (js_sub
          (js_add entry (js_mul entry (takeProfitPercentage st))) entry) (Finite 2)),
       stopLossPrice = js_sub entry (js_mul entry (stopLossPercentage st)),
       stopLossTrigger = js_sub entry (js_mul (js_sub entry
          (js_sub entry (js_mul entry (stopLossPercentage st)))) (Finite 0.9)) \<rparr>"
  by (simp add: calculateTPSLPrices_def Let_def)

lemma calculateTPSLPrices_other:
  "direction \<noteq> ''long'' \<Longrightarrow>
   calculateTPSLPrices direction entry st =
     \<lparr> takeProfitPrice = js_sub entry (js_mul entry (takeProfitPercentage st)),
       takeProfitTrigger = js_sub entry (js_div (js_sub entry
          (js_sub entry (js_mul entry (takeProfitPercentage st)))) (Finite 2)),
       stopLossPrice = js_add entry (js_mul entry (stopLossPercentage st)),
       stopLossTrigger = js_add entry (js_mul (js_sub
          (js_add entry (js_mul entry (stopLossPercentage st))) entry) (Finite 0.9)) \<rparr>"
  by (simp add: calculateTPSLPrices_def Let_def)



text \<open>
  Claim C2. Whatever the direction, the entry price and the settings, the take-profit
  trigger is the entry price plus half of the way to the take-profit price, and the
  stop-loss trigger is the entry price plus nine tenths of the way to the stop-loss
  price. For finite prices the take-profit trigger is the midpoint of the entry price
  and the take-profit price.
\<close>

theorem trigger_placement:
  "takeProfitTrigger (calculateTPSLPrices direction entry st) =
     js_add entry (js_div (js_sub (takeProfitPrice (calculateTPSLPrices direction entry st))
       entry) (Finite 2)) \<and>
   stopLossTrigger (calculateTPSLPrices direction entry st) =
     js_add entry (js_mul (js_sub (stopLossPrice (calculateTPSLPrices direction entry st))
       entry) (Finite 0.9)) \<and>
   (entry = Finite p \<and> takeProfitPrice (calculateTPSLPrices direction entry st) = Finite tp \<longrightarrow>
      takeProfitTrigger (calculateTPSLPrices direction entry st) = Finite ((p + tp) / 2)) \<and>
   (entry = Finite p \<and> stopLossPrice (calculateTPSLPrices direction entry st) = Finite sl \<longrightarrow>
      stopLossTrigger (calculateTPSLPrices direction entry st) =
        Finite (p + (sl - p) * 0.9))"
proof -
  have formulas:
    "takeProfitTrigger (calculateTPSLPrices direction entry st) =
       js_add entry (js_div (js_sub (takeProfitPrice (calculateTPSLPrices direction entry st))
         entry) (Finite 2)) \<and>
     stopLossTrigger (calculateTPSLPrices direction entry st) =
       js_add entry (js_mul (js_sub (stopLossPrice (calculateTPSLPrices direction entry st))
         entry) (Finite 0.9))"
  proof (cases "direction = ''long''")
    case True
    have "js_sub entry (js_mul (js_sub entry x) (Finite 0.9)) =
          js_add entry (js_mul (js_sub x entry) (Finite 0.9))" for x
      unfolding js_sub_def [of entry "js_mul _ _"]
      by (simp add: js_neg_mul_Finite js_neg_sub)
    with True show ?thesis
      by (simp add: calculateTPSLPrices_long)
  next
    case False
    have "js_sub entry (js_div (js_sub entry x) (Finite 2)) =
          js_add entry (js_div (js_sub x entry) (Finite 2))" for x
      unfolding js_sub_def [of entry "js_div _ _"]
      by (simp add: js_neg_half js_neg_sub)
    with False show ?thesis
      by (simp add: calculateTPSLPrices_other)
  qed
  have half: "p + (tp - p) / 2 = (p + tp) / 2"
    by (simp add: field_simps)
  have midpoint: "takeProfitTrigger (calculateTPSLPrices direction entry st) =
      Finite ((p + tp) / 2)"
    if "entry = Finite p \<and> takeProfitPrice (calculateTPSLPrices direction entry st) = Finite tp"
    using that formulas by (auto simp add: half)
  have ninety: "stopLossTrigger (calculateTPSLPrices direction entry st) =
      Finite (p + (sl - p) * 0.9)"
    if "entry = Finite p \<and> stopLossPrice (calculateTPSLPrices direction entry st) = Finite sl"
    using that formulas by auto
  show ?thesis
    using formulas midpoint ninety by blast
qed

theorem trigger_placement_witness:
  "takeProfitTrigger (calculateTPSLPrices ''short'' (Finite 100) sample_settings) =
     Finite 99.91 \<and>
   takeProfitPrice (calculateTPSLPrices ''short'' (Finite 100) sample_settings) =
     Finite 99.82 \<and>
   stopLossTrigger (calculateTPSLPrices ''short'' (Finite 100) sample_settings) =
     Finite 101.98 \<and>
   stopLossPrice (calculateTPSLPrices ''short'' (Finite 100) sample_settings) =
     Finite 102.2"
  using trigger_placement [of "''short''" "Finite 100" sample_settings 100 "99.82" "102.2"]
  by (simp add: calculateTPSLPrices_other sample_settings_def)

section \<open>Entry price and size\<close>















section \<open>Settings\<close>

lemma parseFloat_Undefined: "parseFloat Undefined = NaN"
  by code_simp

lemma parseFloat_zero: "parseFloat (Str ''0'') = Finite 0"
  by code_simp

lemma parseFloat_five: "parseFloat (Str ''5'') = Finite 5"
  by code_simp

lemma parseFloat_abc: "parseFloat (Str ''abc'') = NaN"
  by code_simp

lemma parseFloat_003: "parseFloat (Str ''0.03'') = Finite 0.03"
  by code_simp

text \<open>
  Claim C6, as amended. \<open>fetchSettings\<close> always returns settings and never throws.
  When the read of the store throws, the result is the defaults 8, 0.0018 and 0.022.
  Otherwise each field is what \<open>parseFloat\<close> reads from the stored text, unless that
  is NaN or zero, and then it is the default of the field; a field that the store does
  not have gets its default.
\<close>

theorem fetchSettings_defaults:
  "\<exists>s. fetchSettings h = Inr s \<and>
       (\<forall>error. h = Inl error \<longrightarrow>
          s = \<lparr> leverageMultiplier = Finite 8, takeProfitPercentage = Finite 0.0018,
                stopLossPercentage = Finite 0.022 \<rparr>) \<and>
       (\<forall>obj. h = Inr obj \<longrightarrow>
          leverageMultiplier s =
            (let v = parseFloat (get_property obj ''leverageMultiplier'')
             in if v = NaN \<or> v = Finite 0 then Finite 8 else v) \<and>
          takeProfitPercentage s =
            (let v = parseFloat (get_property obj ''takeProfitPercentage'')
             in if v = NaN \<or> v = Finite 0 then Finite 0.0018 else v) \<and>
          stopLossPercentage s =
            (let v = parseFloat (get_property obj ''stopLossPercentage'')
             in if v = NaN \<or> v = Finite 0 then Finite 0.022 else v) \<and>
          (obj ''leverageMultiplier'' = None \<longrightarrow> leverageMultiplier s = Finite 8) \<and>
          (obj ''takeProfitPercentage'' = None \<longrightarrow>
             takeProfitPercentage s = Finite 0.0018) \<and>
          (obj ''stopLossPercentage'' = None \<longrightarrow> stopLossPercentage s = Finite 0.022))"
  by (cases h)
    (simp_all add: fetchSettings_def js_or_def Let_def get_property_def parseFloat_Undefined)

theorem fetchSettings_defaults_witness:
  "fetchSettings (Inr [''leverageMultiplier'' \<mapsto> ''5'', ''takeProfitPercentage'' \<mapsto> ''abc'',
      ''stopLossPercentage'' \<mapsto> ''0.03'']) =
     Inr \<lparr> leverageMultiplier = Finite 5, takeProfitPercentage = Finite 0.0018,
           stopLossPercentage = Finite 0.03 \<rparr> \<and>
   fetchSettings (Inr Map.empty) =
     Inr \<lparr> leverageMultiplier = Finite 8, takeProfitPercentage = Finite 0.0018,
           stopLossPercentage = Finite 0.022 \<rparr> \<and>
   fetchSettings (Inl (Error ''connect ECONNREFUSED'')) =
     Inr \<lparr> leverageMultiplier = Finite 8, takeProfitPercentage = Finite 0.0018,
           stopLossPercentage = Finite 0.022 \<rparr>"
  using fetchSettings_defaults [of "Inr [''leverageMultiplier'' \<mapsto> ''5'',
      ''takeProfitPercentage'' \<mapsto> ''abc'', ''stopLossPercentage'' \<mapsto> ''0.03'']"]
    fetchSettings_defaults [of "Inr Map.empty"]
    fetchSettings_defaults [of "Inl (Error ''connect ECONNREFUSED'')"]
  by (auto simp add: get_property_def parseFloat_five parseFloat_abc parseFloat_003)

text \<open>
  Claim C6 as stated fails: a stored leverage of \<open>0\<close> is present and parses as the
  number zero, and the result has the default 8 in its place.
\<close>

theorem fetchSettings_zero_counterexample:
  "parseFloat (Str ''0'') = Finite 0 \<and>
   fetchSettings (Inr [''leverageMultiplier'' \<mapsto> ''0'']) =
     Inr \<lparr> leverageMultiplier = Finite 8, takeProfitPercentage = Finite 0.0018,
           stopLossPercentage = Finite 0.022 \<rparr> \<and>
   Finite 8 \<noteq> parseFloat (Str ''0'')"
  by (simp add: fetchSettings_def js_or_def get_property_def parseFloat_zero
      parseFloat_Undefined)

section \<open>The retry loop\<close>

lemma retry_loop_past:
  "maxRetries < attempt \<Longrightarrow>
   retry_loop conn maxRetries retryDelay attempt tx =
     \<lparr> outcome_of = ReturnedUndefined, sent = tx, events = [] \<rparr>"
  by (subst retry_loop.simps) simp

lemma retry_loop_success:
  "attempt \<le> maxRetries \<Longrightarrow> try_attempt conn attempt tx = (Inr txid, tx', done) \<Longrightarrow>
   retry_loop conn maxRetries retryDelay attempt tx =
     \<lparr> outcome_of = Returned txid, sent = tx', events = done \<rparr>"
  by (subst retry_loop.simps) simp

lemma retry_loop_last_failure:
  "try_attempt conn maxRetries tx = (Inl error, tx', done) \<Longrightarrow>
   retry_loop conn maxRetries retryDelay maxRetries tx =
     \<lparr> outcome_of = Threw error, sent = tx', events = done \<rparr>"
  by (subst retry_loop.simps) simp

lemma retry_loop_retry:
  "attempt < maxRetries \<Longrightarrow> try_attempt conn attempt tx = (Inl error, tx', done) \<Longrightarrow>
   retry_loop conn maxRetries retryDelay attempt tx =
     (retry_loop conn maxRetries retryDelay (attempt + 1) tx')
       \<lparr> events := done @ Slept retryDelay #
                    events (retry_loop conn maxRetries retryDelay (attempt + 1) tx') \<rparr>"
  by (subst retry_loop.simps) (simp add: Let_def)





lemma try_attempt_instructions:
  "try_attempt conn attempt t = (answer, t', done) \<Longrightarrow> instructions t' = instructions t"
  by (cases "getLatestBlockhash conn attempt") (auto simp add: try_attempt_def Let_def)

lemma retry_loop_instructions:
  "instructions (sent (retry_loop conn m d a tx)) = instructions tx"
proof (induction "nat (m + 1 - a)" arbitrary: a tx)
  case 0
  then have "m < a" by simp
  then show ?case by (simp add: retry_loop_past)
next
  case (Suc n)
  then have le: "a \<le> m" by simp
  obtain answer tx' evs where t: "try_attempt conn a tx = (answer, tx', evs)"
    by (cases "try_attempt conn a tx") auto
  have i: "instructions tx' = instructions tx"
    using t by (rule try_attempt_instructions)
  show ?case
  proof (cases answer)
    case (Inr txid)
    then show ?thesis using le t i by (simp add: retry_loop_success)
  next
    case (Inl error)
    show ?thesis
    proof (cases "a = m")
      case True
      then show ?thesis using t Inl i by (simp add: retry_loop_last_failure)
    next
      case False
      then have lt: "a < m" using le by simp
      have "n = nat (m + 1 - (a + 1))" using Suc.hyps(2) by simp
      then have "instructions (sent (retry_loop conn m d (a + 1) tx')) = instructions tx'"
        by (rule Suc.hyps(1))
      then show ?thesis
        using lt t Inl i by (simp add: retry_loop_retry)
    qed
  qed
qed

lemma attempts_of_append: "attempts_of (xs @ ys) = attempts_of xs @ attempts_of ys"
  by (induction xs rule: attempts_of.induct) simp_all


lemma try_attempt_events:
  assumes "try_attempt conn a tx = (answer, tx', evs)"
  shows "attempts_of evs = [a]" and "delays_of evs = []" and "evs \<noteq> []"
    and "\<not> is_sleep (last evs)"
    and "answer = Inr txid \<Longrightarrow> \<exists>t. last evs = Submitted a t"
  using assms
  by (cases "getLatestBlockhash conn a"; auto simp add: try_attempt_def Let_def)+



lemma retry_loop_events_shape:
  assumes "a \<le> m" and "try_attempt conn a tx = (answer, tx', evs)"
  shows "events (retry_loop conn m d a tx) = evs \<or>
         a < m \<and> events (retry_loop conn m d a tx) =
           evs @ Slept d # events (retry_loop conn m d (a + 1) tx')"
proof (cases answer)
  case (Inr txid)
  then show ?thesis
    using assms by (simp add: retry_loop_success)
next
  case (Inl error)
  show ?thesis
  proof (cases "a = m")
    case True
    then show ?thesis
      using assms(2) Inl by (simp add: retry_loop_last_failure)
  next
    case False
    then have "a < m" using assms(1) by simp
    then show ?thesis
      using assms(2) Inl by (simp add: retry_loop_retry)
  qed
qed

lemma retry_loop_attempts_in_order:
  "a \<le> m \<Longrightarrow> \<exists>n. a \<le> n \<and> attempts_of (events (retry_loop conn m d a tx)) = [a..n]"
proof (induction "nat (m - a)" arbitrary: a tx)
  case 0
  then have am: "a = m" by simp
  obtain answer tx' evs where t: "try_attempt conn a tx = (answer, tx', evs)"
    by (cases "try_attempt conn a tx") auto
  have "events (retry_loop conn m d a tx) = evs"
    using retry_loop_events_shape [OF "0.prems" t, of d] am by simp
  then have "attempts_of (events (retry_loop conn m d a tx)) = [a..a]"
    using try_attempt_events(1) [OF t] by simp
  then show ?case by blast
next
  case (Suc k)
  obtain answer tx' evs where t: "try_attempt conn a tx = (answer, tx', evs)"
    by (cases "try_attempt conn a tx") auto
  from retry_loop_events_shape [OF Suc.prems t, of d] show ?case
  proof
    assume "events (retry_loop conn m d a tx) = evs"
    then have "attempts_of (events (retry_loop conn m d a tx)) = [a..a]"
      using try_attempt_events(1) [OF t] by simp
    then show ?thesis by blast
  next
    assume s: "a < m \<and> events (retry_loop conn m d a tx) =
        evs @ Slept d # events (retry_loop conn m d (a + 1) tx')"
    then have "k = nat (m - (a + 1))" and "a + 1 \<le> m"
      using Suc.hyps(2) by simp_all
    then obtain n where n: "a + 1 \<le> n"
        "attempts_of (events (retry_loop conn m d (a + 1) tx')) = [a + 1..n]"
      using Suc.hyps(1) by blast
    have "[a..n] = a # [a + 1..n]"
      using n(1) by (simp add: upto_rec1)
    then have "attempts_of (events (retry_loop conn m d a tx)) = [a..n]"
      using s n(2) try_attempt_events(1) [OF t] by (simp add: attempts_of_append)
    then show ?thesis using n(1) by (intro exI [of _ n]) simp
  qed
qed

lemma try_attempt_fresh:
  assumes "try_attempt conn a tx = (answer, tx', evs)" and "Submitted i t \<in> set evs"
  shows "(\<exists>bh h. getLatestBlockhash conn i = Inr (bh, h) \<and> recentBlockhash t = Some bh \<and>
            lastValidBlockHeight t = Some h) \<and>
         evs = [RequestedBlockhash i, Submitted i t]"
  using assms
  by (cases "getLatestBlockhash conn a") (auto simp add: try_attempt_def Let_def)

lemma retry_loop_fresh:
  "Submitted i t \<in> set (events (retry_loop conn m d a tx)) \<Longrightarrow>
   (\<exists>bh h. getLatestBlockhash conn i = Inr (bh, h) \<and> recentBlockhash t = Some bh \<and>
      lastValidBlockHeight t = Some h) \<and>
   (\<exists>pre post. events (retry_loop conn m d a tx) =
      pre @ RequestedBlockhash i # Submitted i t # post)"
proof (induction "nat (m + 1 - a)" arbitrary: a tx)
  case 0
  then have "m < a" by simp
  then show ?case using "0.prems" by (simp add: retry_loop_past)
next
  case (Suc k)
  then have le: "a \<le> m" by simp
  obtain answer tx' evs where t: "try_attempt conn a tx = (answer, tx', evs)"
    by (cases "try_attempt conn a tx") auto
  from retry_loop_events_shape [OF le t, of d] show ?case
  proof
    assume e: "events (retry_loop conn m d a tx) = evs"
    then have "Submitted i t \<in> set evs" using Suc.prems by simp
    from try_attempt_fresh [OF t this] show ?thesis
      unfolding e by (metis append_Nil)
  next
    assume s: "a < m \<and> events (retry_loop conn m d a tx) =
        evs @ Slept d # events (retry_loop conn m d (a + 1) tx')"
    then have e: "events (retry_loop conn m d a tx) =
        evs @ Slept d # events (retry_loop conn m d (a + 1) tx')" ..
    from Suc.prems have "Submitted i t \<in> set evs \<or>
        Submitted i t \<in> set (events (retry_loop conn m d (a + 1) tx'))"
      unfolding e by auto
    then show ?thesis
    proof
      assume "Submitted i t \<in> set evs"
      from try_attempt_fresh [OF t this] show ?thesis
        unfolding e by (metis append_Cons append_Nil)
    next
      assume later: "Submitted i t \<in> set (events (retry_loop conn m d (a + 1) tx'))"
      have "k = nat (m + 1 - (a + 1))" using Suc.hyps(2) by simp
      from Suc.hyps(1) [OF this later] obtain pre post where
        f: "\<exists>bh h. getLatestBlockhash conn i = Inr (bh, h) \<and> recentBlockhash t = Some bh \<and>
              lastValidBlockHeight t = Some h"
        and p: "events (retry_loop conn m d (a + 1) tx') =
              pre @ RequestedBlockhash i # Submitted i t # post"
        by blast
      have "events (retry_loop conn m d a tx) =
          (evs @ Slept d # pre) @ RequestedBlockhash i # Submitted i t # post"
        unfolding e p by simp
      then show ?thesis using f by blast
    qed
  qed
qed


lemma digits_2: "digits 2 = ''2''"
  by code_simp




text \<open>
  Claim C8. In every run the attempts request a blockhash one after the other, each
  attempt once. Every submission is directly preceded by the blockhash request of its
  own attempt, and the transaction it submits carries the blockhash and the block
  height that this request answered.
\<close>

theorem fresh_blockhash:
  "(\<exists>n. attempts_of (events (processTransactionWithRetry conn tx maxRetries retryDelay)) =
      [1..n]) \<and>
   (\<forall>i t. Submitted i t \<in> set (events (processTransactionWithRetry conn tx maxRetries
        retryDelay)) \<longrightarrow>
      (\<exists>bh h. getLatestBlockhash conn i = Inr (bh, h) \<and> recentBlockhash t = Some bh \<and>
         lastValidBlockHeight t = Some h) \<and>
      (\<exists>pre post. events (processTransactionWithRetry conn tx maxRetries retryDelay) =
         pre @ RequestedBlockhash i # Submitted i t # post))"
proof -
  define m where "m = (case maxRetries of None \<Rightarrow> 3 | Some m \<Rightarrow> m)"
  define d where "d = (case retryDelay of None \<Rightarrow> 100 | Some d \<Rightarrow> d)"
  have r: "processTransactionWithRetry conn tx maxRetries retryDelay = retry_loop conn m d 1 tx"
    by (simp add: processTransactionWithRetry_def m_def d_def)
  have "\<exists>n. attempts_of (events (retry_loop conn m d 1 tx)) = [1..n]"
  proof (cases "1 \<le> m")
    case True
    then show ?thesis using retry_loop_attempts_in_order [of 1 m conn d tx] by blast
  next
    case False
    then have "attempts_of (events (retry_loop conn m d 1 tx)) = [1..0]"
      by (simp add: retry_loop_past)
    then show ?thesis ..
  qed
  then show ?thesis
    unfolding r using retry_loop_fresh [of _ _ conn m d 1 tx] by blast
qed

lemma sample_run:
  "events (processTransactionWithRetry (sample_rpc 4) empty_transaction None None) =
     [RequestedBlockhash 1,
      Submitted 1 \<lparr> instructions = [], recentBlockhash = Some ''hash1'',
                    lastValidBlockHeight = Some 1000 \<rparr>,
      Slept 100,
      RequestedBlockhash 2,
      Submitted 2 \<lparr> instructions = [], recentBlockhash = Some ''hash2'',
                    lastValidBlockHeight = Some 1000 \<rparr>,
      Slept 100,
      RequestedBlockhash 3,
      Submitted 3 \<lparr> instructions = [], recentBlockhash = Some ''hash3'',
                    lastValidBlockHeight = Some 1000 \<rparr>]"
  by code_simp

theorem fresh_blockhash_witness:
  "Submitted 2 \<lparr> instructions = [], recentBlockhash = Some ''hash2'',
                  lastValidBlockHeight = Some 1000 \<rparr>
     \<in> set (events (processTransactionWithRetry (sample_rpc 4) empty_transaction None None)) \<and>
   getLatestBlockhash (sample_rpc 4) 2 = Inr (''hash2'', 1000) \<and>
   attempts_of (events (processTransactionWithRetry (sample_rpc 4) empty_transaction
     None None)) = [1, 2, 3]"
proof -
  have g: "getLatestBlockhash (sample_rpc 4) 2 = Inr (''hash2'', 1000)"
    by (simp add: sample_rpc_def digits_2 del: digits.simps)
  show ?thesis
    using fresh_blockhash [of "sample_rpc 4" empty_transaction None None]
    by (simp add: sample_run g)
qed

section \<open>The order bundle\<close>

lemma open_built:
  assumes "built (openPositionWithTPSLVersioned k w direction market) = Some tx"
  shows "\<exists>st pr.
           fetchSettings (hgetall w) = Inr st \<and>
           calculatePricesAndSize k (exchange_orderbook w)
             (if direction = ''long'' then BID else ASK)
             (case market of None \<Rightarrow> activeMarket w | Some m \<Rightarrow> m)
             (account_balance w) st = Inr pr \<and>
           instructions tx =
             [createMainOrderInstruction k
                (case market of None \<Rightarrow> activeMarket w | Some m \<Rightarrow> m)
                (adjustedPrice pr) (nativeLotSize pr)
                (if direction = ''long'' then BID else ASK),
              createTPLimitOrderInstruction k direction
                (case market of None \<Rightarrow> activeMarket w | Some m \<Rightarrow> m)
                (takeProfitPrice (calculateTPSLPrices direction (adjustedPrice pr) st))
                (takeProfitTrigger (calculateTPSLPrices direction (adjustedPrice pr) st))
                (nativeLotSize pr),
              createSLOrderInstruction k direction
                (case market of None \<Rightarrow> activeMarket w | Some m \<Rightarrow> m)
                (stopLossPrice (calculateTPSLPrices direction (adjustedPrice pr) st))
                (stopLossTrigger (calculateTPSLPrices direction (adjustedPrice pr) st))
                (nativeLotSize pr) (Some 0)]"
  using assms
  by (auto simp add: openPositionWithTPSLVersioned_def Let_def
      processTransactionWithRetry_def retry_loop_instructions
      split: sum.splits option.splits)

text \<open>
  Claim C4, as amended. Called without a slot, the take-profit trigger builder uses slot
  0 and the stop-loss trigger builder uses slot 1; called with a slot, each uses the
  slot it is given. The bundle that \<open>openPositionWithTPSLVersioned\<close> builds has one
  trigger instruction, the stop-loss, and it is given slot 0; the main order and the
  take-profit leg are plain orders with no slot.
\<close>

theorem trigger_slots:
  "trigger_slot (createTPOrderInstruction k d m p t n None) = Some 0 \<and>
   trigger_slot (createSLOrderInstruction k d m p t n None) = Some 1 \<and>
   trigger_slot (createTPOrderInstruction k d m p t n (Some b)) = Some b \<and>
   trigger_slot (createSLOrderInstruction k d m p t n (Some b)) = Some b \<and>
   (built (openPositionWithTPSLVersioned k w d market) = Some tx \<longrightarrow>
      map trigger_slot (instructions tx) = [None, None, Some 0])"
proof -
  have "map trigger_slot (instructions tx) = [None, None, Some 0]"
    if "built (openPositionWithTPSLVersioned k w d market) = Some tx"
    using open_built [OF that]
    by (auto simp add: createMainOrderInstruction_def createTPLimitOrderInstruction_def
        createSLOrderInstruction_def Let_def)
  then show ?thesis
    by (simp add: createTPOrderInstruction_def createSLOrderInstruction_def Let_def)
qed

lemma sample_short_built:
  "built (openPositionWithTPSLVersioned sample_sdk (sample_world (sample_rpc 1))
     ''short'' (Some 0)) \<noteq> None"
  by code_simp

theorem trigger_slots_witness:
  "map_option (\<lambda>tx. map trigger_slot (instructions tx))
     (built (openPositionWithTPSLVersioned sample_sdk (sample_world (sample_rpc 1))
        ''short'' (Some 0))) = Some [None, None, Some 0]"
proof -
  obtain tx where tx: "built (openPositionWithTPSLVersioned sample_sdk
      (sample_world (sample_rpc 1)) ''short'' (Some 0)) = Some tx"
    using sample_short_built by blast
  show ?thesis
    using trigger_slots [of sample_sdk "''short''" 0 "Finite 1" "Finite 1" "Finite 1" 0
        "sample_world (sample_rpc 1)" "Some 0" tx] tx
    by simp
qed

text \<open>
  Claim C4 as stated fails: in the bundle built for a long on the sample world the
  stop-loss trigger instruction has slot 0, not slot 1.
\<close>

theorem stop_loss_slot_counterexample:
  "map_option (\<lambda>tx. map trigger_slot (instructions tx))
     (built (openPositionWithTPSLVersioned sample_sdk (sample_world (sample_rpc 1))
        ''long'' None)) = Some [None, None, Some 0]"
  by code_simp

text \<open>
  Claim C9. The take-profit builder of the bundle ignores the trigger price: two calls
  that differ in it alone give the same instruction, a plain limit order with the
  reduce-only flag at the take-profit price, on the ask side for a long and on the bid
  side otherwise. In every bundle built, the second instruction is this order at the
  computed take-profit price, it is not a trigger order, and its side is the opposite
  of the side of the main order.
\<close>

theorem take_profit_leg:
  "createTPLimitOrderInstruction k d m tp trigger1 n =
     createTPLimitOrderInstruction k d m tp trigger2 n \<and>
   createTPLimitOrderInstruction k d m tp trigger1 n =
     PlacePerpOrder m (convertDecimalToNativeInteger k tp) n
       (if d = ''long'' then ASK else BID)
       \<lparr> orderType = Some LIMIT, tifOptions = Some [], reduceOnly = Some True,
         tag = None \<rparr> \<and>
   (built (openPositionWithTPSLVersioned k w d market) = Some tx \<longrightarrow>
      (\<exists>st pr.
         fetchSettings (hgetall w) = Inr st \<and>
         calculatePricesAndSize k (exchange_orderbook w)
           (if d = ''long'' then BID else ASK)
           (case market of None \<Rightarrow> activeMarket w | Some i \<Rightarrow> i)
           (account_balance w) st = Inr pr \<and>
         instructions tx ! 1 =
           createTPLimitOrderInstruction k d
             (case market of None \<Rightarrow> activeMarket w | Some i \<Rightarrow> i)
             (takeProfitPrice (calculateTPSLPrices d (adjustedPrice pr) st)) trigger1
             (nativeLotSize pr)) \<and>
      \<not> is_trigger_order (instructions tx ! 1) \<and>
      order_side (instructions tx ! 0) = (if d = ''long'' then BID else ASK) \<and>
      order_side (instructions tx ! 1) = (if d = ''long'' then ASK else BID))"
proof -
  have "(\<exists>st pr.
         fetchSettings (hgetall w) = Inr st \<and>
         calculatePricesAndSize k (exchange_orderbook w)
           (if d = ''long'' then BID else ASK)
           (case market of None \<Rightarrow> activeMarket w | Some i \<Rightarrow> i)
           (account_balance w) st = Inr pr \<and>
         instructions tx ! 1 =
           createTPLimitOrderInstruction k d
             (case market of None \<Rightarrow> activeMarket w | Some i \<Rightarrow> i)
             (takeProfitPrice (calculateTPSLPrices d (adjustedPrice pr) st)) trigger1
             (nativeLotSize pr)) \<and>
      \<not> is_trigger_order (instructions tx ! 1) \<and>
      order_side (instructions tx ! 0) = (if d = ''long'' then BID else ASK) \<and>
      order_side (instructions tx ! 1) = (if d = ''long'' then ASK else BID)"
    if "built (openPositionWithTPSLVersioned k w d market) = Some tx"
    using open_built [OF that]
    by (auto simp add: createMainOrderInstruction_def createTPLimitOrderInstruction_def)
  then show ?thesis
    by (simp add: createTPLimitOrderInstruction_def)
qed

lemma sample_long_built:
  "built (openPositionWithTPSLVersioned sample_sdk (sample_world (sample_rpc 1))
     ''long'' None) \<noteq> None"
  by code_simp

theorem take_profit_leg_witness:
  "map_option (\<lambda>tx. (is_trigger_order (instructions tx ! 1),
                    order_side (instructions tx ! 0), order_side (instructions tx ! 1)))
     (built (openPositionWithTPSLVersioned sample_sdk (sample_world (sample_rpc 1))
        ''long'' None)) = Some (False, BID, ASK)"
proof -
  obtain tx where tx: "built (openPositionWithTPSLVersioned sample_sdk
      (sample_world (sample_rpc 1)) ''long'' None) = Some tx"
    using sample_long_built by blast
  show ?thesis
    using take_profit_leg [of sample_sdk "''long''" 0 "Finite 1" "Finite 1" "Finite 1"
        "Finite 2" "sample_world (sample_rpc 1)" None tx] tx
    by simp
qed

text \<open>
  Claim C10. A direction that is not the string \<open>long\<close> is handled as \<open>short\<close> is:
  opening the position gives the same result, the prices are the short-sign formulas,
  each builder gives the instruction it gives for \<open>short\<close>, the protective legs are on
  the bid side and the main order on the ask side. No direction is rejected.
\<close>

theorem direction_other_than_long:
  "d \<noteq> ''long'' \<longrightarrow>
     openPositionWithTPSLVersioned k w d market =
       openPositionWithTPSLVersioned k w ''short'' market \<and>
     calculateTPSLPrices d entry st =
       \<lparr> takeProfitPrice = js_sub entry (js_mul entry (takeProfitPercentage st)),
         takeProfitTrigger = js_sub entry (js_div (js_sub entry
            (js_sub entry (js_mul entry (takeProfitPercentage st)))) (Finite 2)),
         stopLossPrice = js_add entry (js_mul entry (stopLossPercentage st)),
         stopLossTrigger = js_add entry (js_mul (js_sub
            (js_add entry (js_mul entry (stopLossPercentage st))) entry) (Finite 0.9)) \<rparr> \<and>
     calculateTPSLPrices d entry st = calculateTPSLPrices ''short'' entry st \<and>
     createTPLimitOrderInstruction k d m p t n =
       createTPLimitOrderInstruction k ''short'' m p t n \<and>
     createTPOrderInstruction k d m p t n b = createTPOrderInstruction k ''short'' m p t n b \<and>
     createSLOrderInstruction k d m p t n b = createSLOrderInstruction k ''short'' m p t n b \<and>
     order_side (createTPLimitOrderInstruction k d m p t n) = BID \<and>
     order_side (createTPOrderInstruction k d m p t n b) = BID \<and>
     order_side (createSLOrderInstruction k d m p t n b) = BID \<and>
     (built (openPositionWithTPSLVersioned k w d market) = Some tx \<longrightarrow>
        map order_side (instructions tx) = [ASK, BID, BID])"
proof
  assume d: "d \<noteq> ''long''"
  have sides: "map order_side (instructions tx) = [ASK, BID, BID]"
    if "built (openPositionWithTPSLVersioned k w d market) = Some tx"
    using open_built [OF that] d
    by (auto simp add: createMainOrderInstruction_def createTPLimitOrderInstruction_def
        createSLOrderInstruction_def Let_def)
  have calc: "calculateTPSLPrices d entry st = calculateTPSLPrices ''short'' entry st"
    for entry st
    using d by (simp add: calculateTPSLPrices_other)
  have tpl: "createTPLimitOrderInstruction k d m p t n =
      createTPLimitOrderInstruction k ''short'' m p t n" for m p t n
    using d by (simp add: createTPLimitOrderInstruction_def)
  have sl: "createSLOrderInstruction k d m p t n b =
      createSLOrderInstruction k ''short'' m p t n b" for m p t n b
    using d by (simp add: createSLOrderInstruction_def)
  have "openPositionWithTPSLVersioned k w d market =
      openPositionWithTPSLVersioned k w ''short'' market"
    using d
    by (simp add: openPositionWithTPSLVersioned_def Let_def calc tpl sl
        split: sum.splits option.splits)
  then show "openPositionWithTPSLVersioned k w d market =
       openPositionWithTPSLVersioned k w ''short'' market \<and>
     calculateTPSLPrices d entry st =
       \<lparr> takeProfitPrice = js_sub entry (js_mul entry (takeProfitPercentage st)),
         takeProfitTrigger = js_sub entry (js_div (js_sub entry
            (js_sub entry (js_mul entry (takeProfitPercentage st)))) (Finite 2)),
         stopLossPrice = js_add entry (js_mul entry (stopLossPercentage st)),
         stopLossTrigger = js_add entry (js_mul (js_sub
            (js_add entry (js_mul entry (stopLossPercentage st))) entry) (Finite 0.9)) \<rparr> \<and>
     calculateTPSLPrices d entry st = calculateTPSLPrices ''short'' entry st \<and>
     createTPLimitOrderInstruction k d m p t n =
       createTPLimitOrderInstruction k ''short'' m p t n \<and>
     createTPOrderInstruction k d m p t n b = createTPOrderInstruction k ''short'' m p t n b \<and>
     createSLOrderInstruction k d m p t n b = createSLOrderInstruction k ''short'' m p t n b \<and>
     order_side (createTPLimitOrderInstruction k d m p t n) = BID \<and>
     order_side (createTPOrderInstruction k d m p t n b) = BID \<and>
     order_side (createSLOrderInstruction k d m p t n b) = BID \<and>
     (built (openPositionWithTPSLVersioned k w d market) = Some tx \<longrightarrow>
        map order_side (instructions tx) = [ASK, BID, BID])"
    using d sides
    by (simp add: calculateTPSLPrices_other createTPLimitOrderInstruction_def
        createTPOrderInstruction_def createSLOrderInstruction_def)
qed

lemma sample_LONG_run:
  "result (openPositionWithTPSLVersioned sample_sdk (sample_world (sample_rpc 1))
     ''short'' None) = Returned ''txid1'' \<and>
   map_option (\<lambda>tx. map order_side (instructions tx))
     (built (openPositionWithTPSLVersioned sample_sdk (sample_world (sample_rpc 1))
        ''short'' None)) = Some [ASK, BID, BID]"
  by code_simp

theorem direction_other_than_long_witness:
  "result (openPositionWithTPSLVersioned sample_sdk (sample_world (sample_rpc 1))
     ''LONG'' None) = Returned ''txid1'' \<and>
   map_option (\<lambda>tx. map order_side (instructions tx))
     (built (openPositionWithTPSLVersioned sample_sdk (sample_world (sample_rpc 1))
        ''LONG'' None)) = Some [ASK, BID, BID]"
  using direction_other_than_long [of "''LONG''" sample_sdk "sample_world (sample_rpc 1)"
      None "Finite 1" sample_settings 0 "Finite 1" "Finite 1" "Finite 1" None
      "\<lparr> instructions = [], recentBlockhash = None, lastValidBlockHeight = None \<rparr>"]
    sample_LONG_run
  by simp

end
